theory Spec2Isabelle
  imports Main "HOL-Library.Log_Nat"
begin

section \<open>The take-notes server: OTP authentication (src/server/index.ts)\<close>

text \<open>
  The server is an Express application over a MongoDB collection of users. Each route
  handler is modelled as a function from the request's fields, the collection and the
  environment of that request (clock, random source, outcome of the database and mail
  calls) to the new collection, the mails sent, the console output and the HTTP response.
  The model covers requests whose \<open>email\<close> field is a JSON string.
\<close>

subsection \<open>Data model\<close>

type_synonym time = int
  \<comment> \<open>milliseconds since the epoch, the value of a JavaScript Date\<close>

text \<open>UserSchema (lines 26-32). \<open>uid\<close> is the document's \<open>_id\<close>.\<close>

record user =
  uid :: nat
  name :: string
  email :: string
  dateOfBirth :: "string option"
  otp :: "string option"
  otpExpires :: "time option"

text \<open>A field of a JSON request body; \<open>JUndefined\<close> is an absent field.\<close>

datatype json = JUndefined | JNull | JBool bool | JNumber int | JString string

record response =
  status :: nat
  success :: "bool option"
  message :: string
  token :: "string option"
  error :: "string option"

record mail =
  to :: string
  subject :: string
  text_body :: string

datatype log_entry = LogInfo string | LogError string string

text \<open>
  What one request sees of the outside world: the clock (\<open>Date.now()\<close>, \<open>new Date()\<close>),
  the value of \<open>Math.random()\<close>, and whether the database read, the database write and
  \<open>transporter.sendMail\<close> throw (\<open>Some m\<close> is an Error with message \<open>m\<close>).
\<close>

record env =
  now :: time
  rnd :: nat
  find_error :: "string option"
  save_error :: "string option"
  mail_error :: "string option"

record outcome =
  db :: "user list"
  sent :: "mail list"
  logs :: "log_entry list"
  resp :: response

subsection \<open>Double-precision arithmetic of the code generator\<close>

text \<open>
  Every finite non-negative double is an integer multiple of \<open>2\<^sup>-\<^sup>1\<^sup>0\<^sup>7\<^sup>4\<close>; a double is
  represented by that integer. \<open>fl\<close> is IEEE 754 rounding to nearest, ties to even, of an
  exact value to 53 significant bits (values below \<open>2\<^sup>5\<^sup>3\<close> units are subnormal or in
  the first binade and exact). Overflow is not modelled: the handlers' operands stay
  below \<open>2\<^sup>2\<^sup>0\<close>.
\<close>

type_synonym double = nat

definition one_d :: double where
  "one_d = 2 ^ 1074"

definition fl :: "nat \<Rightarrow> double" where
  "fl x =
     (let k = floorlog 2 x - 53; q = x div 2 ^ k; r = x mod 2 ^ k
      in if 2 * r < 2 ^ k \<or> (2 * r = 2 ^ k \<and> even q) then q * 2 ^ k else (q + 1) * 2 ^ k)"

definition is_double :: "nat \<Rightarrow> bool" where
  "is_double x \<longleftrightarrow> fl x = x"

text \<open>\<open>Math.random()\<close> returns a double \<open>r\<close> with \<open>0 \<le> r < 1\<close>.\<close>

definition is_random :: "double \<Rightarrow> bool" where
  "is_random r \<longleftrightarrow> is_double r \<and> r < one_d"

text \<open>An integer literal of the source as a double.\<close>

definition d_of_nat :: "nat \<Rightarrow> double" where
  "d_of_nat n = fl (n * one_d)"

text \<open>\<open>a * b\<close> for a double \<open>a\<close> and an integer literal \<open>b\<close>; \<open>a + b\<close>; \<open>Math.floor\<close>.\<close>

definition d_mul_lit :: "double \<Rightarrow> nat \<Rightarrow> double" where
  "d_mul_lit a n = fl (a * n)"

definition d_add :: "double \<Rightarrow> double \<Rightarrow> double" where
  "d_add a b = fl (a + b)"

definition math_floor :: "double \<Rightarrow> nat" where
  "math_floor a = a div one_d"

text \<open>\<open>Number.prototype.toString\<close> on a non-negative integer below \<open>10\<^sup>2\<^sup>1\<close>: decimal digits.\<close>

definition digit_char :: "nat \<Rightarrow> char" where
  "digit_char d = ''0123456789'' ! d"

fun number_toString :: "nat \<Rightarrow> string" where
  "number_toString n =
     (if n < 10 then [digit_char n] else number_toString (n div 10) @ [digit_char (n mod 10)])"

declare number_toString.simps [simp del]

text \<open>\<open>Math.floor(100000 + Math.random() * 900000).toString()\<close> (lines 100 and 149).\<close>

definition generate_otp :: "double \<Rightarrow> nat" where
  "generate_otp r = math_floor (d_add (d_of_nat 100000) (d_mul_lit r 900000))"

subsection \<open>The collection\<close>

text \<open>\<open>User.findOne({ email })\<close>: the first document with that email, or null.\<close>

definition findOne :: "string \<Rightarrow> user list \<Rightarrow> user option" where
  "findOne em users = find (\<lambda>u. email u = em) users"

text \<open>\<open>user.save()\<close> on a document read from the collection: replaces it by \<open>_id\<close>.\<close>

definition save :: "user \<Rightarrow> user list \<Rightarrow> user list" where
  "save u users = map (\<lambda>d. if uid d = uid u then u else d) users"

definition fresh_id :: "user list \<Rightarrow> nat" where
  "fresh_id users = Suc (fold max (map uid users) 0)"

text \<open>
  \<open>new User({ name, email, dateOfBirth, otp, otpExpires })\<close> followed by the schema
  validation of \<open>save()\<close>: \<open>name\<close> and \<open>email\<close> are required, and Mongoose's required
  check on a String path rejects the empty string. \<open>Inl\<close> is the ValidationError.
\<close>

definition new_user ::
  "user list \<Rightarrow> string option \<Rightarrow> string \<Rightarrow> string option \<Rightarrow> string \<Rightarrow> time \<Rightarrow> string + user" where
  "new_user users nm em dob code expires =
     (case nm of
        None \<Rightarrow> Inl ''User validation failed''
      | Some n \<Rightarrow>
          if n = [] \<or> em = [] then Inl ''User validation failed''
          else Inr \<lparr>uid = fresh_id users, name = n, email = em, dateOfBirth = dob,
                    otp = Some code, otpExpires = Some expires\<rparr>)"

subsection \<open>Responses\<close>

definition reply :: "nat \<Rightarrow> string \<Rightarrow> response" where
  "reply st msg = \<lparr>status = st, success = None, message = msg, token = None, error = None\<rparr>"

definition reply_ok :: "string \<Rightarrow> string option \<Rightarrow> response" where
  "reply_ok msg tok =
     \<lparr>status = 200, success = Some True, message = msg, token = tok, error = None\<rparr>"

text \<open>The \<open>catch\<close> block every handler ends with.\<close>

definition server_error :: "user list \<Rightarrow> string \<Rightarrow> outcome" where
  "server_error users m =
     \<lparr>db = users, sent = [], logs = [],
      resp = \<lparr>status = 500, success = Some False, message = ''Server error.'', token = None,
               error = Some m\<rparr>\<rparr>"

definition respond :: "user list \<Rightarrow> response \<Rightarrow> outcome" where
  "respond users r = \<lparr>db = users, sent = [], logs = [], resp = r\<rparr>"

subsection \<open>sendEmail (lines 53-66)\<close>

definition sendEmail :: "env \<Rightarrow> string \<Rightarrow> string \<Rightarrow> string \<Rightarrow> mail list \<times> log_entry list" where
  "sendEmail e rcpt subj txt =
     (case mail_error e of
        None \<Rightarrow> ([\<lparr>to = rcpt, subject = subj, text_body = txt\<rparr>], [LogInfo (''Email sent to '' @ rcpt)])
      | Some m \<Rightarrow> ([], [LogError (''Error sending email to '' @ rcpt @ '':'') m]))"

subsection \<open>POST /api/auth/request-signup-otp (lines 92-113)\<close>

definition request_signup_otp ::
  "env \<Rightarrow> string option \<Rightarrow> string option \<Rightarrow> string \<Rightarrow> user list \<Rightarrow> outcome" where
  "request_signup_otp e nm dob em users =
     (case find_error e of
        Some m \<Rightarrow> server_error users m
      | None \<Rightarrow>
          (case findOne em users of
             Some existingUser \<Rightarrow> respond users (reply 400 ''User with this email already exists.'')
           | None \<Rightarrow>
               let code = number_toString (generate_otp (rnd e));
                   expires = now e + 10 * 60 * 1000
               in (case new_user users nm em dob code expires of
                     Inl m \<Rightarrow> server_error users m
                   | Inr newUser \<Rightarrow>
                       (case save_error e of
                          Some m \<Rightarrow> server_error users m
                        | None \<Rightarrow>
                            (let (ms, ls) = sendEmail e em ''Your Sign-up OTP''
                                   (''Your OTP for notes-app sign up is: '' @ code)
                             in \<lparr>db = users @ [newUser], sent = ms, logs = ls,
                                 resp = reply_ok ''OTP sent successfully.'' None\<rparr>)))))"

subsection \<open>POST /api/auth/signup (lines 115-139) and POST /api/auth/login (lines 166-190)\<close>

text \<open>
  The rejection test of both handlers (lines 123 and 174):
  \<open>!user.otp || user.otp !== otp || !user.otpExpires || new Date() > user.otpExpires\<close>.
  The empty string is falsy; \<open>!==\<close> is false only for a JSON string equal to the stored one.
\<close>

definition otp_rejected :: "user \<Rightarrow> json \<Rightarrow> time \<Rightarrow> bool" where
  "otp_rejected u code t =
     (case otp u of
        None \<Rightarrow> True
      | Some s \<Rightarrow>
          s = [] \<or> JString s \<noteq> code \<or>
          (case otpExpires u of None \<Rightarrow> True | Some x \<Rightarrow> t > x))"

text \<open>
  \<open>sign uid t\<close> stands for \<open>jwt.sign({ user: { id } }, JWT_SECRET, { expiresIn: '1h' })\<close>
  at time \<open>t\<close>, a function of the jsonwebtoken library.
\<close>

definition signup :: "(nat \<Rightarrow> time \<Rightarrow> string) \<Rightarrow> env \<Rightarrow> string \<Rightarrow> json \<Rightarrow> user list \<Rightarrow> outcome" where
  "signup sign e em code users =
     (case find_error e of
        Some m \<Rightarrow> server_error users m
      | None \<Rightarrow>
          (case findOne em users of
             None \<Rightarrow> respond users (reply 400 ''Invalid email.'')
           | Some u \<Rightarrow>
               if otp_rejected u code (now e)
               then respond users (reply 400 ''Invalid or expired OTP.'')
               else
                 (case save_error e of
                    Some m \<Rightarrow> server_error users m
                  | None \<Rightarrow>
                      \<lparr>db = save (u\<lparr>otp := None, otpExpires := None\<rparr>) users, sent = [], logs = [],
                       resp = reply_ok ''Signup successful.'' (Some (sign (uid u) (now e)))\<rparr>)))"

text \<open>The login handler differs in its two messages only.\<close>

definition login :: "(nat \<Rightarrow> time \<Rightarrow> string) \<Rightarrow> env \<Rightarrow> string \<Rightarrow> json \<Rightarrow> user list \<Rightarrow> outcome" where
  "login sign e em code users =
     (case find_error e of
        Some m \<Rightarrow> server_error users m
      | None \<Rightarrow>
          (case findOne em users of
             None \<Rightarrow> respond users (reply 400 ''Invalid credentials.'')
           | Some u \<Rightarrow>
               if otp_rejected u code (now e)
               then respond users (reply 400 ''Invalid or expired OTP.'')
               else
                 (case save_error e of
                    Some m \<Rightarrow> server_error users m
                  | None \<Rightarrow>
                      \<lparr>db = save (u\<lparr>otp := None, otpExpires := None\<rparr>) users, sent = [], logs = [],
                       resp = reply_ok ''Login successful.'' (Some (sign (uid u) (now e)))\<rparr>)))"

subsection \<open>POST /api/auth/request-otp (lines 141-163)\<close>

definition request_otp :: "env \<Rightarrow> string \<Rightarrow> user list \<Rightarrow> outcome" where
  "request_otp e em users =
     (case find_error e of
        Some m \<Rightarrow> server_error users m
      | None \<Rightarrow>
          (case findOne em users of
             None \<Rightarrow> respond users (reply 404 ''User not found. Please sign up first.'')
           | Some u \<Rightarrow>
               let code = number_toString (generate_otp (rnd e));
                   expires = now e + 10 * 60 * 1000
               in (case save_error e of
                     Some m \<Rightarrow> server_error users m
                   | None \<Rightarrow>
                       (let (ms, ls) = sendEmail e em ''Your Login OTP''
                              (''Your OTP for notes-app login is: '' @ code)
                        in \<lparr>db = save (u\<lparr>otp := Some code, otpExpires := Some expires\<rparr>) users,
                            sent = ms, logs = ls,
                            resp = reply_ok ''OTP sent successfully.'' None\<rparr>))))"

subsection \<open>The four routes, one request after another\<close>

text \<open>
  The routes registered with \<open>app.post\<close>, and the collection after a sequence of requests
  handled one at a time, each with its own environment.
\<close>

datatype request =
    RequestSignupOtp "string option" "string option" string
  | Signup string json
  | RequestOtp string
  | Login string json

fun handle :: "(nat \<Rightarrow> time \<Rightarrow> string) \<Rightarrow> env \<Rightarrow> request \<Rightarrow> user list \<Rightarrow> outcome" where
  "handle sign e (RequestSignupOtp nm dob em) users = request_signup_otp e nm dob em users"
| "handle sign e (Signup em code) users = signup sign e em code users"
| "handle sign e (RequestOtp em) users = request_otp e em users"
| "handle sign e (Login em code) users = login sign e em code users"

fun run :: "(nat \<Rightarrow> time \<Rightarrow> string) \<Rightarrow> (env \<times> request) list \<Rightarrow> user list \<Rightarrow> user list" where
  "run sign [] users = users"
| "run sign ((e, r) # rs) users = run sign rs (db (handle sign e r users))"

subsection \<open>authMiddleware (lines 68-82)\<close>

text \<open>\<open>String.prototype.split(' ')\<close>: the segments between single spaces, at least one.\<close>

fun split_space :: "string \<Rightarrow> string list" where
  "split_space [] = [[]]"
| "split_space (c # cs) =
     (if c = CHR '' '' then [] # split_space cs
      else (case split_space cs of [] \<Rightarrow> [[c]] | w # ws \<Rightarrow> (c # w) # ws))"

text \<open>\<open>xs[1]\<close>: the second element, \<open>undefined\<close> (\<open>None\<close>) when there is none.\<close>

definition index1 :: "'a list \<Rightarrow> 'a option" where
  "index1 xs = (if 1 < length xs then Some (xs ! 1) else None)"

text \<open>
  \<open>verify t\<close> stands for \<open>jwt.verify(t, JWT_SECRET)\<close> at the time of the request, a function
  of the jsonwebtoken library: \<open>Inl m\<close> when it throws an Error with message \<open>m\<close> (bad
  signature, expired, malformed), \<open>Inr\<close> of the decoded payload's \<open>user\<close> otherwise. The
  result of the middleware is \<open>Inl\<close> of the response it sends itself, or \<open>Inr\<close> of the
  \<open>req.user\<close> with which it calls \<open>next()\<close>.
\<close>

definition authMiddleware ::
  "(string \<Rightarrow> string + nat option) \<Rightarrow> string option \<Rightarrow> response + nat option" where
  "authMiddleware verify authorization =
     (let token = (case authorization of None \<Rightarrow> None | Some h \<Rightarrow> index1 (split_space h))
      in case token of
           None \<Rightarrow> Inl (reply 401 ''No token, authorization denied.'')
         | Some t \<Rightarrow>
             if t = [] then Inl (reply 401 ''No token, authorization denied.'')
             else
               (case verify t of
                  Inr decoded_user \<Rightarrow> Inr decoded_user
                | Inl m \<Rightarrow>
                    Inl \<lparr>status = 401, success = None, message = ''Token is not valid.'',
                         token = None, error = Some m\<rparr>))"

text \<open>A protected route, \<open>app.get(path, authMiddleware, handler)\<close>.\<close>

definition protected ::
  "(string \<Rightarrow> string + nat option) \<Rightarrow> (nat option \<Rightarrow> response) \<Rightarrow> string option \<Rightarrow> response" where
  "protected verify handler authorization =
     (case authMiddleware verify authorization of
        Inl r \<Rightarrow> r
      | Inr req_user \<Rightarrow> handler req_user)"

subsection \<open>Sample values\<close>

definition half_d :: double where
  "half_d = 2 ^ 1073"

definition env0 :: env where
  "env0 = \<lparr>now = 1000000, rnd = half_d, find_error = None, save_error = None,
           mail_error = None\<rparr>"

definition alice :: user where
  "alice = \<lparr>uid = 1, name = ''Alice'', email = ''a@x.com'', dateOfBirth = None,
            otp = Some ''123456'', otpExpires = Some 1600000\<rparr>"

definition sign0 :: "nat \<Rightarrow> time \<Rightarrow> string" where
  "sign0 i t = ''jwt-'' @ number_toString i"

definition verify0 :: "string \<Rightarrow> string + nat option" where
  "verify0 t = (if t = ''jwt-1'' then Inr (Some 1) else Inl ''invalid signature'')"

section \<open>Properties of the code generator\<close>

subsection \<open>Rounding\<close>

text \<open>
  \<open>fl\<close> is exact on 53-bit values, returns a multiple of the unit in the last place of
  its argument's binade, and never crosses a double: a double above the argument bounds
  the rounded value from above, a double below it from below.
\<close>

lemma fl_small: "x < 2 ^ 53 \<Longrightarrow> fl x = x"
proof -
  assume "x < 2 ^ 53"
  then have "floorlog 2 x \<le> 53" by (simp add: floorlog_le_iff)
  then show ?thesis by (simp add: fl_def)
qed

lemma fl_dvd: "2 ^ (floorlog 2 x - 53) dvd fl x"
  by (simp add: fl_def Let_def)

lemma fl_ge_down: "(x div 2 ^ (floorlog 2 x - 53)) * 2 ^ (floorlog 2 x - 53) \<le> fl x"
  by (simp add: fl_def Let_def)

lemma fl_le_up:
  "fl x \<le> (if 2 ^ (floorlog 2 x - 53) dvd x then x
            else (x div 2 ^ (floorlog 2 x - 53) + 1) * 2 ^ (floorlog 2 x - 53))"
  by (auto simp add: fl_def Let_def simp flip: dvd_eq_mod_eq_0)

lemma multiple_le_div_mult:
  fixes m x d :: nat
  assumes "d dvd m" "m \<le> x"
  shows "m \<le> (x div d) * d"
proof -
  from assms(1) obtain c where c: "m = d * c" ..
  show ?thesis
  proof (cases "d = 0")
    case True
    with c show ?thesis by simp
  next
    case False
    have "m div d \<le> x div d" using assms(2) by (rule div_le_mono)
    with c False have "c \<le> x div d" by simp
    then have "c * d \<le> (x div d) * d" by (rule mult_le_mono1)
    with c show ?thesis by (simp add: mult.commute)
  qed
qed

lemma multiple_gt_ge_next:
  fixes m x d :: nat
  assumes "d dvd m" "x \<le> m" "\<not> d dvd x"
  shows "(x div d + 1) * d \<le> m"
proof -
  from assms(1) obtain c where c: "m = d * c" ..
  have d0: "d > 0"
  proof (rule ccontr)
    assume "\<not> d > 0"
    then have z: "d = 0" by simp
    with c assms(2) have "x = 0" by simp
    with z assms(3) show False by simp
  qed
  have "x \<noteq> m" using assms(1,3) by auto
  with assms(2) have "x < d * c" using c by simp
  then have "x div d < c" using d0 by (simp add: div_less_iff_less_mult mult.commute)
  then have "x div d + 1 \<le> c" by simp
  then have "(x div d + 1) * d \<le> c * d" by (rule mult_le_mono1)
  with c show ?thesis by (simp add: mult.commute)
qed

lemma fl_upper:
  assumes "x \<le> t" "is_double t"
  shows "fl x \<le> t"
proof -
  let ?k = "floorlog 2 x - 53"
  have "floorlog 2 x \<le> floorlog 2 t" using assms(1) by (rule floorlog_mono)
  then have "?k \<le> floorlog 2 t - 53" by simp
  then have "(2::nat) ^ ?k dvd 2 ^ (floorlog 2 t - 53)" by (rule le_imp_power_dvd)
  moreover have "2 ^ (floorlog 2 t - 53) dvd t"
    using fl_dvd [of t] assms(2) by (simp add: is_double_def)
  ultimately have d: "2 ^ ?k dvd t" by (rule dvd_trans)
  show ?thesis
  proof (cases "2 ^ ?k dvd x")
    case True
    then have "fl x \<le> x" using fl_le_up [of x] by simp
    with assms(1) show ?thesis by simp
  next
    case False
    then have "fl x \<le> (x div 2 ^ ?k + 1) * 2 ^ ?k" using fl_le_up [of x] by simp
    also have "\<dots> \<le> t" using d assms(1) False by (rule multiple_gt_ge_next)
    finally show ?thesis .
  qed
qed

lemma fl_lower:
  assumes "t \<le> x" "is_double t"
  shows "t \<le> fl x"
proof -
  let ?L = "floorlog 2 x"
  let ?k = "?L - 53"
  have "\<exists>m. 2 ^ ?k dvd m \<and> t \<le> m \<and> m \<le> x"
  proof (cases "?k \<le> floorlog 2 t - 53")
    case True
    then have "(2::nat) ^ ?k dvd 2 ^ (floorlog 2 t - 53)" by (rule le_imp_power_dvd)
    moreover have "2 ^ (floorlog 2 t - 53) dvd t"
      using fl_dvd [of t] assms(2) by (simp add: is_double_def)
    ultimately have "2 ^ ?k dvd t" by (rule dvd_trans)
    with assms(1) show ?thesis by blast
  next
    case False
    then have lt: "floorlog 2 t < ?L" and big: "53 < ?L" by simp_all
    have x0: "x > 0" using big floorlog_eq_zero_iff [of 2 x] by (cases "x = 0") auto
    have "t < 2 ^ floorlog 2 t"
      by (cases "t = 0") (use floorlog_bounds [of t 2] in simp_all)
    also have "(2::nat) ^ floorlog 2 t \<le> 2 ^ (?L - 1)"
      using lt by (intro power_increasing) simp_all
    finally have t: "t \<le> 2 ^ (?L - 1)" by simp
    have "2 ^ (?L - 1) \<le> x" using floorlog_bounds [of x 2] x0 by simp
    moreover have "(2::nat) ^ ?k dvd 2 ^ (?L - 1)" by (rule le_imp_power_dvd) simp
    ultimately show ?thesis using t by blast
  qed
  then obtain m where m: "2 ^ ?k dvd m" "t \<le> m" "m \<le> x" by blast
  have "m \<le> (x div 2 ^ ?k) * 2 ^ ?k" using m(1,3) by (rule multiple_le_div_mult)
  also have "\<dots> \<le> fl x" by (rule fl_ge_down)
  finally show ?thesis using m(2) by simp
qed

lemma is_double_shift:
  assumes "n < 2 ^ 53"
  shows "is_double (n * 2 ^ j)"
proof (cases "n = 0")
  case True
  then show ?thesis by (simp add: is_double_def fl_small)
next
  case False
  then have "floorlog 2 (n * 2 ^ j) = floorlog 2 n + j" by simp
  moreover have "floorlog 2 n \<le> 53" using assms by (simp add: floorlog_le_iff)
  ultimately have "floorlog 2 (n * 2 ^ j) - 53 \<le> j" by simp
  then have "(2::nat) ^ (floorlog 2 (n * 2 ^ j) - 53) dvd 2 ^ j" by (rule le_imp_power_dvd)
  then have "2 ^ (floorlog 2 (n * 2 ^ j) - 53) dvd n * 2 ^ j" by (rule dvd_mult)
  then have "fl (n * 2 ^ j) \<le> n * 2 ^ j" using fl_le_up [of "n * 2 ^ j"] by simp
  moreover have "n * 2 ^ j \<le> fl (n * 2 ^ j)"
    using fl_ge_down [of "n * 2 ^ j"] \<open>2 ^ (floorlog 2 (n * 2 ^ j) - 53) dvd n * 2 ^ j\<close>
    by simp
  ultimately show ?thesis by (simp add: is_double_def)
qed

lemma random_le:
  assumes "is_random r"
  shows "r + 2 ^ 1021 \<le> one_d"
proof -
  from assms have d: "fl r = r" and lt: "r < 2 ^ 1074"
    by (simp_all add: is_random_def is_double_def one_d_def)
  have split: "(2::nat) ^ 1074 = 2 ^ 53 * 2 ^ 1021" by (simp flip: power_add)
  show ?thesis
  proof (cases "floorlog 2 r \<le> 1073")
    case True
    then have "r < 2 ^ 1073" by (rule floorlog_leD) simp
    moreover have "(2::nat) ^ 1021 \<le> 2 ^ 1073" by (rule power_increasing) simp_all
    moreover have "(2::nat) ^ 1074 = 2 ^ 1073 + 2 ^ 1073" by (simp flip: mult_2 power_Suc)
    ultimately show ?thesis by (simp add: one_d_def)
  next
    case False
    moreover have "floorlog 2 r \<le> 1074" using lt by (simp add: floorlog_le_iff)
    ultimately have "floorlog 2 r - 53 = 1021" by simp
    then have "2 ^ 1021 dvd r" using fl_dvd [of r] d by simp
    then obtain c where c: "r = 2 ^ 1021 * c" ..
    with lt split have "c < 2 ^ 53" by simp
    then have "c + 1 \<le> 2 ^ 53" by simp
    then have "(c + 1) * 2 ^ 1021 \<le> 2 ^ 53 * (2::nat) ^ 1021" by (rule mult_le_mono1)
    with c split show ?thesis by (simp add: one_d_def algebra_simps)
  qed
qed

lemma fl_round_down:
  assumes "floorlog 2 x - 53 = k" "x = Q * 2 ^ k + d" "2 * d < 2 ^ k"
  shows "fl x = Q * 2 ^ k"
proof -
  from assms(3) have d: "d < 2 ^ k" by simp
  with assms(2) have "x div 2 ^ k = Q" "x mod 2 ^ k = d" by simp_all
  with assms(1,3) show ?thesis by (simp add: fl_def)
qed

lemma pow2_units:
  fixes u :: nat
  assumes "u = 2 ^ 1021"
  shows "one_d = 9007199254740992 * u"
    and "(2::nat) ^ 1041 = 1048576 * u"
    and "(2::nat) ^ 1093 = 4722366482869645213696 * u"
    and "(2::nat) ^ 1094 = 9444732965739290427392 * u"
proof -
  have "(2::nat) ^ 1074 = 2 ^ 53 * 2 ^ 1021" by (simp only: flip: power_add) simp
  then show "one_d = 9007199254740992 * u" unfolding one_d_def assms by simp
  have "(2::nat) ^ 1041 = 2 ^ 20 * 2 ^ 1021" by (simp only: flip: power_add) simp
  then show "(2::nat) ^ 1041 = 1048576 * u" unfolding assms by simp
  have "(2::nat) ^ 1093 = 2 ^ 72 * 2 ^ 1021" by (simp only: flip: power_add) simp
  then show "(2::nat) ^ 1093 = 4722366482869645213696 * u" unfolding assms by simp
  have "(2::nat) ^ 1094 = 2 ^ 73 * 2 ^ 1021" by (simp only: flip: power_add) simp
  then show "(2::nat) ^ 1094 = 9444732965739290427392 * u" unfolding assms by simp
qed

lemma fl_integer: "n < 2 ^ 53 \<Longrightarrow> fl (n * one_d) = n * one_d"
  using is_double_shift [of n 1074] unfolding is_double_def one_d_def .

lemma d_of_nat_exact: "n < 2 ^ 53 \<Longrightarrow> d_of_nat n = n * one_d"
  unfolding d_of_nat_def by (rule fl_integer)

lemma mul_bound:
  assumes "is_random r" and u: "u = 2 ^ 1021"
  shows "d_mul_lit r 900000 + 1048576 * u \<le> 8106479329266892800000 * u"
proof -
  define p where "p = r * 900000"
  have u0: "u > 0" unfolding u by simp
  note units = pow2_units [OF u]
  have "r + u \<le> 9007199254740992 * u"
    using random_le [OF assms(1)] unfolding units(1) u .
  then have p: "p + 900000 * u \<le> 8106479329266892800000 * u"
    by (simp add: p_def)
  have t: "is_double (7730941132799999 * 2 ^ 1041)" by (rule is_double_shift) simp
  have "fl p + 1048576 * u \<le> 8106479329266892800000 * u"
  proof (cases "p \<le> 7730941132799999 * 2 ^ 1041")
    case True
    then have "fl p \<le> 7730941132799999 * 2 ^ 1041" using t by (rule fl_upper)
    then have "fl p \<le> 7730941132799999 * (1048576 * u)" unfolding units(2) .
    then show ?thesis by simp
  next
    case False
    then have "\<not> p \<le> 7730941132799999 * (1048576 * u)" unfolding units(2) .
    then have lo: "8106479329266891751424 * u < p" by simp
    define d where "d = p - 8106479329266891751424 * u"
    have "p = 7730941132799999 * (1048576 * u) + d" using lo by (simp add: d_def)
    then have pd: "p = 7730941132799999 * 2 ^ 1041 + d" unfolding units(2) .
    have "d + 8106479329266891751424 * u = p" using lo by (simp add: d_def)
    with p u0 have "2 * d < 1048576 * u" by simp
    then have d: "2 * d < 2 ^ 1041" unfolding units(2) .
    have "4722366482869645213696 * u \<le> p" using lo u0 by simp
    then have "2 ^ 1093 \<le> p" unfolding units(3) .
    then have "Suc 1093 \<le> floorlog 2 p" by (rule floorlog_ge_SucI) simp
    moreover have "p < 9444732965739290427392 * u" using p u0 by simp
    then have "p < 2 ^ 1094" unfolding units(4) .
    then have "floorlog 2 p \<le> 1094" unfolding floorlog_le_iff by simp
    ultimately have k: "floorlog 2 p - 53 = 1041" by simp
    from k pd d have "fl p = 7730941132799999 * 2 ^ 1041" by (rule fl_round_down)
    then have "fl p = 7730941132799999 * (1048576 * u)" unfolding units(2) .
    then show ?thesis by simp
  qed
  then show ?thesis by (simp add: d_mul_lit_def p_def)
qed

lemma generate_otp_range:
  assumes "is_random r"
  shows "100000 \<le> generate_otp r \<and> generate_otp r \<le> 999999"
proof -
  define u :: nat where u: "u = 2 ^ 1021"
  define s where "s = d_of_nat 100000 + d_mul_lit r 900000"
  have u0: "u > 0" unfolding u by simp
  have one0: "one_d > 0" unfolding one_d_def by simp
  note units = pow2_units [OF u]
  have c: "d_of_nat 100000 = 100000 * one_d" by (rule d_of_nat_exact) simp
  have g: "generate_otp r = fl s div one_d"
    by (simp add: generate_otp_def math_floor_def d_add_def s_def)
  have lo: "100000 * one_d \<le> s" by (simp add: s_def c)
  have "is_double (100000 * one_d)"
    unfolding one_d_def by (rule is_double_shift) simp
  with lo have "100000 * one_d \<le> fl s" by (rule fl_lower)
  then have "(100000 * one_d) div one_d \<le> fl s div one_d" by (rule div_le_mono)
  then have low: "100000 \<le> generate_otp r" using one0 by (simp add: g)
  have t: "is_double (8589934591999999 * 2 ^ 1041)" by (rule is_double_shift) simp
  have "s = 100000 * (9007199254740992 * u) + d_mul_lit r 900000"
    unfolding s_def c units(1) ..
  then have "s \<le> 8589934591999999 * (1048576 * u)"
    using mul_bound [OF assms u] by simp
  then have "s \<le> 8589934591999999 * 2 ^ 1041" unfolding units(2) .
  then have "fl s \<le> 8589934591999999 * 2 ^ 1041" using t by (rule fl_upper)
  then have "fl s \<le> 8589934591999999 * (1048576 * u)" unfolding units(2) .
  then have "fl s < 1000000 * (9007199254740992 * u)" using u0 by simp
  then have "fl s < 1000000 * one_d" unfolding units(1) .
  then have "fl s div one_d < 1000000"
    using one0 by (simp add: div_less_iff_less_mult)
  with low show ?thesis by (simp add: g)
qed

subsection \<open>Decimal rendering and sample values\<close>

lemma number_toString_six:
  assumes "100000 \<le> n" "n \<le> 999999"
  shows "length (number_toString n) = 6"
proof -
  have "\<not> n < 10" "\<not> n div 10 < 10" "\<not> n div 10 div 10 < 10" "\<not> n div 10 div 10 div 10 < 10"
    "\<not> n div 10 div 10 div 10 div 10 < 10" "n div 10 div 10 div 10 div 10 div 10 < 10"
    using assms by simp_all
  then show ?thesis
    by (simp add: number_toString.simps [of n] number_toString.simps [of "n div 10"]
        number_toString.simps [of "n div 10 div 10"]
        number_toString.simps [of "n div 10 div 10 div 10"]
        number_toString.simps [of "n div 10 div 10 div 10 div 10"]
        number_toString.simps [of "n div 10 div 10 div 10 div 10 div 10"])
qed

lemma digit_char_digit: "d < 10 \<Longrightarrow> digit_char d \<in> set ''0123456789''"
  unfolding digit_char_def by (rule nth_mem) simp

lemma number_toString_digits: "set (number_toString n) \<subseteq> set ''0123456789''"
proof (induction n rule: number_toString.induct)
  case (1 n)
  show ?case
  proof (cases "n < 10")
    case True
    then show ?thesis using digit_char_digit [of n] by (simp add: number_toString.simps [of n])
  next
    case False
    have "n mod 10 < 10" by simp
    then have "digit_char (n mod 10) \<in> set ''0123456789''" by (rule digit_char_digit)
    with False 1 show ?thesis by (simp add: number_toString.simps [of n])
  qed
qed

lemma is_random_half: "is_random half_d"
proof -
  have "is_double (1 * 2 ^ 1073)" by (rule is_double_shift) simp
  moreover have "(2::nat) ^ 1073 < 2 ^ 1074" by (rule power_strict_increasing) simp_all
  ultimately show ?thesis unfolding is_random_def half_d_def one_d_def by simp
qed

lemma generate_otp_half: "generate_otp half_d = 550000"
proof -
  have "half_d * 2 = one_d" unfolding half_d_def one_d_def by (simp only: flip: power_Suc2) simp
  then have "half_d * 900000 = 450000 * one_d" by simp
  then have "d_mul_lit half_d 900000 = fl (450000 * one_d)" unfolding d_mul_lit_def by (rule arg_cong)
  also have "\<dots> = 450000 * one_d" by (rule fl_integer) simp
  finally have m: "d_mul_lit half_d 900000 = 450000 * one_d" .
  have c: "d_of_nat 100000 = 100000 * one_d" by (rule d_of_nat_exact) simp
  have "d_add (d_of_nat 100000) (d_mul_lit half_d 900000) = fl (550000 * one_d)"
    unfolding d_add_def c m by simp
  also have "\<dots> = 550000 * one_d" by (rule fl_integer) simp
  finally have "d_add (d_of_nat 100000) (d_mul_lit half_d 900000) = 550000 * one_d" .
  moreover have "one_d > 0" unfolding one_d_def by simp
  ultimately show ?thesis unfolding generate_otp_def math_floor_def by simp
qed

lemma number_toString_550000: "number_toString 550000 = ''550000''"
  by (simp add: number_toString.simps digit_char_def)

section \<open>Properties of the collection\<close>

lemma findOne_append_new:
  "findOne em users = None \<Longrightarrow> email u = em \<Longrightarrow> findOne em (users @ [u]) = Some u"
  unfolding findOne_def by (induction users) (simp_all split: if_splits)

lemma findOne_save:
  "findOne em users = Some u \<Longrightarrow> email u' = em \<Longrightarrow> uid u' = uid u \<Longrightarrow>
   findOne em (save u' users) = Some u'"
  unfolding findOne_def save_def by (induction users) (simp_all split: if_splits)

lemma findOne_email: "findOne em users = Some u \<Longrightarrow> email u = em"
  unfolding findOne_def by (induction users) (simp_all split: if_splits)


section \<open>Outcomes of the challenge requests\<close>

lemma request_signup_otp_ok:
  assumes "status (resp (request_signup_otp e nm dob em users)) = 200"
  shows "\<exists>n. nm = Some n \<and>
           db (request_signup_otp e nm dob em users) =
             users @ [\<lparr>uid = fresh_id users, name = n, email = em, dateOfBirth = dob,
                       otp = Some (number_toString (generate_otp (rnd e))),
                       otpExpires = Some (now e + 600000)\<rparr>] \<and>
           findOne em users = None"
  using assms
  by (auto simp add: request_signup_otp_def server_error_def respond_def reply_def new_user_def
      Let_def split: option.splits sum.splits if_splits prod.splits)

lemma request_otp_ok:
  assumes "status (resp (request_otp e em users)) = 200"
  shows "\<exists>u. findOne em users = Some u \<and>
           db (request_otp e em users) =
             save (u\<lparr>otp := Some (number_toString (generate_otp (rnd e))),
                      otpExpires := Some (now e + 600000)\<rparr>) users"
  using assms
  by (auto simp add: request_otp_def server_error_def respond_def reply_def
      Let_def split: option.splits sum.splits if_splits prod.splits)


lemma env0_simps:
  "now env0 = 1000000" "rnd env0 = half_d" "find_error env0 = None" "save_error env0 = None"
  "mail_error env0 = None"
  by (simp_all add: env0_def)

lemma request_signup_otp_env0:
  "request_signup_otp env0 (Some ''Alice'') None ''a@x.com'' [] =
     \<lparr>db = [\<lparr>uid = 1, name = ''Alice'', email = ''a@x.com'', dateOfBirth = None,
             otp = Some ''550000'', otpExpires = Some 1600000\<rparr>],
      sent = [\<lparr>to = ''a@x.com'', subject = ''Your Sign-up OTP'',
               text_body = ''Your OTP for notes-app sign up is: 550000''\<rparr>],
      logs = [LogInfo ''Email sent to a@x.com''],
      resp = reply_ok ''OTP sent successfully.'' None\<rparr>"
  by (simp add: request_signup_otp_def env0_simps findOne_def new_user_def fresh_id_def
      sendEmail_def generate_otp_half number_toString_550000 Let_def)

lemma request_otp_env0:
  "request_otp env0 ''a@x.com'' [alice] =
     \<lparr>db = [alice\<lparr>otp := Some ''550000'', otpExpires := Some 1600000\<rparr>],
      sent = [\<lparr>to = ''a@x.com'', subject = ''Your Login OTP'',
               text_body = ''Your OTP for notes-app login is: 550000''\<rparr>],
      logs = [LogInfo ''Email sent to a@x.com''],
      resp = reply_ok ''OTP sent successfully.'' None\<rparr>"
  by (simp add: request_otp_def env0_simps findOne_def alice_def save_def
      sendEmail_def generate_otp_half number_toString_550000 Let_def)


section \<open>Issued challenges\<close>

text \<open>
  Claim C7. Whenever a challenge request succeeds (either handler answers 200) with a
  \<open>Math.random()\<close> value that is a double in \<open>[0, 1)\<close>, the account found under the email
  afterwards stores the decimal rendering of a number between 100000 and 999999 inclusive,
  six decimal digits long, and an expiry equal to the request's clock plus 600000 ms. The
  bound holds for the rounded double-precision arithmetic of the source expression.
\<close>

theorem issued_challenge_code_and_expiry:
  assumes "is_random (rnd e)"
  shows "(status (resp (request_signup_otp e nm dob em users)) = 200 \<longrightarrow>
            (\<exists>u n. findOne em (db (request_signup_otp e nm dob em users)) = Some u \<and>
               otp u = Some (number_toString n) \<and> 100000 \<le> n \<and> n \<le> 999999 \<and>
               length (number_toString n) = 6 \<and>
               set (number_toString n) \<subseteq> set ''0123456789'' \<and>
               otpExpires u = Some (now e + 600000))) \<and>
         (status (resp (request_otp e em users)) = 200 \<longrightarrow>
            (\<exists>u n. findOne em (db (request_otp e em users)) = Some u \<and>
               otp u = Some (number_toString n) \<and> 100000 \<le> n \<and> n \<le> 999999 \<and>
               length (number_toString n) = 6 \<and>
               set (number_toString n) \<subseteq> set ''0123456789'' \<and>
               otpExpires u = Some (now e + 600000)))"
proof -
  define n where "n = generate_otp (rnd e)"
  have range: "100000 \<le> n" "n \<le> 999999"
    using generate_otp_range [OF assms] by (simp_all add: n_def)
  then have six: "length (number_toString n) = 6" by (rule number_toString_six)
  have digits: "set (number_toString n) \<subseteq> set ''0123456789''" by (rule number_toString_digits)
  have a: "\<exists>u m. findOne em (db (request_signup_otp e nm dob em users)) = Some u \<and>
               otp u = Some (number_toString m) \<and> 100000 \<le> m \<and> m \<le> 999999 \<and>
               length (number_toString m) = 6 \<and>
               set (number_toString m) \<subseteq> set ''0123456789'' \<and>
               otpExpires u = Some (now e + 600000)"
    if ok: "status (resp (request_signup_otp e nm dob em users)) = 200"
  proof -
    from request_signup_otp_ok [OF ok] obtain nm' where
      db: "db (request_signup_otp e nm dob em users) =
             users @ [\<lparr>uid = fresh_id users, name = nm', email = em, dateOfBirth = dob,
                       otp = Some (number_toString n), otpExpires = Some (now e + 600000)\<rparr>]"
      and none: "findOne em users = None"
      unfolding n_def by blast
    have "findOne em (db (request_signup_otp e nm dob em users)) =
            Some \<lparr>uid = fresh_id users, name = nm', email = em, dateOfBirth = dob,
                  otp = Some (number_toString n), otpExpires = Some (now e + 600000)\<rparr>"
      unfolding db using none by (rule findOne_append_new) simp
    with range six digits show ?thesis by auto
  qed
  have b: "\<exists>u m. findOne em (db (request_otp e em users)) = Some u \<and>
               otp u = Some (number_toString m) \<and> 100000 \<le> m \<and> m \<le> 999999 \<and>
               length (number_toString m) = 6 \<and>
               set (number_toString m) \<subseteq> set ''0123456789'' \<and>
               otpExpires u = Some (now e + 600000)"
    if ok: "status (resp (request_otp e em users)) = 200"
  proof -
    from request_otp_ok [OF ok] obtain u where
      found: "findOne em users = Some u"
      and db: "db (request_otp e em users) =
             save (u\<lparr>otp := Some (number_toString n), otpExpires := Some (now e + 600000)\<rparr>) users"
      unfolding n_def by blast
    have "email u = em" using found by (rule findOne_email)
    then have "findOne em (db (request_otp e em users)) =
            Some (u\<lparr>otp := Some (number_toString n), otpExpires := Some (now e + 600000)\<rparr>)"
      unfolding db by (intro findOne_save [OF found]) simp_all
    with range six digits show ?thesis by auto
  qed
  from a b show ?thesis by blast
qed


theorem issued_challenge_code_and_expiry_witness:
  "is_random (rnd env0) \<and>
   status (resp (request_signup_otp env0 (Some ''Alice'') None ''a@x.com'' [])) = 200 \<and>
   status (resp (request_otp env0 ''a@x.com'' [alice])) = 200 \<and>
   (\<exists>u n. findOne ''a@x.com'' (db (request_signup_otp env0 (Some ''Alice'') None ''a@x.com'' [])) = Some u \<and>
      otp u = Some (number_toString n) \<and> 100000 \<le> n \<and> n \<le> 999999 \<and>
      length (number_toString n) = 6 \<and> set (number_toString n) \<subseteq> set ''0123456789'' \<and>
      otpExpires u = Some (now env0 + 600000)) \<and>
   (\<exists>u n. findOne ''a@x.com'' (db (request_otp env0 ''a@x.com'' [alice])) = Some u \<and>
      otp u = Some (number_toString n) \<and> 100000 \<le> n \<and> n \<le> 999999 \<and>
      length (number_toString n) = 6 \<and> set (number_toString n) \<subseteq> set ''0123456789'' \<and>
      otpExpires u = Some (now env0 + 600000))"
proof -
  have r: "is_random (rnd env0)" by (simp add: env0_simps is_random_half)
  have s1: "status (resp (request_signup_otp env0 (Some ''Alice'') None ''a@x.com'' [])) = 200"
    by (simp add: request_signup_otp_env0 reply_ok_def)
  have s2: "status (resp (request_otp env0 ''a@x.com'' [alice])) = 200"
    by (simp add: request_otp_env0 reply_ok_def)
  from issued_challenge_code_and_expiry [OF r, of "Some ''Alice''" None "''a@x.com''" "[]"]
    issued_challenge_code_and_expiry [OF r, of _ _ "''a@x.com''" "[alice]"]
    r s1 s2 show ?thesis by blast
qed

section \<open>Completing signup and login\<close>

lemma otp_rejected_iff:
  "otp_rejected u code t \<longleftrightarrow>
     \<not> (\<exists>c x. otp u = Some c \<and> c \<noteq> [] \<and> code = JString c \<and> otpExpires u = Some x \<and> t \<le> x)"
  unfolding otp_rejected_def by (auto split: option.splits)

lemma signup_found:
  assumes "find_error e = None" "findOne em users = Some u"
  shows "signup sign e em code users =
     (if otp_rejected u code (now e) then respond users (reply 400 ''Invalid or expired OTP.'')
      else case save_error e of
             Some m \<Rightarrow> server_error users m
           | None \<Rightarrow> \<lparr>db = save (u\<lparr>otp := None, otpExpires := None\<rparr>) users, sent = [], logs = [],
                      resp = reply_ok ''Signup successful.'' (Some (sign (uid u) (now e)))\<rparr>)"
  using assms by (simp add: signup_def)

lemma login_found:
  assumes "find_error e = None" "findOne em users = Some u"
  shows "login sign e em code users =
     (if otp_rejected u code (now e) then respond users (reply 400 ''Invalid or expired OTP.'')
      else case save_error e of
             Some m \<Rightarrow> server_error users m
           | None \<Rightarrow> \<lparr>db = save (u\<lparr>otp := None, otpExpires := None\<rparr>) users, sent = [], logs = [],
                      resp = reply_ok ''Login successful.'' (Some (sign (uid u) (now e)))\<rparr>)"
  using assms by (simp add: login_def)

lemmas resp_simps = respond_def reply_def reply_ok_def server_error_def

text \<open>
  Claim C1, as amended. For an account found under the email, each of the two completion
  handlers answers ``Invalid or expired OTP.'' exactly when it is not the case that a
  non-empty code is stored, the submitted value is the JSON string equal to it, an expiry is
  stored, and the clock is at or before that expiry; when the write succeeds, it answers
  200 exactly in that case. The test on the expiry is \<open>new Date() > user.otpExpires\<close>, so a
  code submitted exactly at its expiry is still accepted.
\<close>

theorem otp_validation_accepts_iff:
  assumes "find_error e = None" and "findOne em users = Some u"
  shows "(resp (signup sign e em code users) = reply 400 ''Invalid or expired OTP.'' \<longleftrightarrow>
            \<not> (\<exists>c x. otp u = Some c \<and> c \<noteq> [] \<and> code = JString c \<and>
                   otpExpires u = Some x \<and> now e \<le> x)) \<and>
         (resp (login sign e em code users) = reply 400 ''Invalid or expired OTP.'' \<longleftrightarrow>
            \<not> (\<exists>c x. otp u = Some c \<and> c \<noteq> [] \<and> code = JString c \<and>
                   otpExpires u = Some x \<and> now e \<le> x)) \<and>
         (save_error e = None \<longrightarrow>
            (status (resp (signup sign e em code users)) = 200 \<longleftrightarrow>
               (\<exists>c x. otp u = Some c \<and> c \<noteq> [] \<and> code = JString c \<and>
                  otpExpires u = Some x \<and> now e \<le> x)) \<and>
            (status (resp (login sign e em code users)) = 200 \<longleftrightarrow>
               (\<exists>c x. otp u = Some c \<and> c \<noteq> [] \<and> code = JString c \<and>
                  otpExpires u = Some x \<and> now e \<le> x)))"
proof -
  have s: "resp (signup sign e em code users) = reply 400 ''Invalid or expired OTP.'' \<longleftrightarrow>
             otp_rejected u code (now e)"
    by (simp add: signup_found [OF assms] resp_simps split: option.splits)
  have l: "resp (login sign e em code users) = reply 400 ''Invalid or expired OTP.'' \<longleftrightarrow>
             otp_rejected u code (now e)"
    by (simp add: login_found [OF assms] resp_simps split: option.splits)
  have s2: "status (resp (signup sign e em code users)) = 200 \<longleftrightarrow> \<not> otp_rejected u code (now e)"
    if "save_error e = None"
    using that by (simp add: signup_found [OF assms] resp_simps)
  have l2: "status (resp (login sign e em code users)) = 200 \<longleftrightarrow> \<not> otp_rejected u code (now e)"
    if "save_error e = None"
    using that by (simp add: login_found [OF assms] resp_simps)
  show ?thesis
    unfolding s l using s2 l2 unfolding otp_rejected_iff by blast
qed

lemma findOne_alice: "findOne ''a@x.com'' [alice] = Some alice"
  by (simp add: findOne_def alice_def)

theorem otp_validation_accepts_iff_witness:
  "find_error env0 = None \<and> findOne ''a@x.com'' [alice] = Some alice \<and> save_error env0 = None \<and>
   status (resp (signup sign0 env0 ''a@x.com'' (JString ''123456'') [alice])) = 200 \<and>
   status (resp (login sign0 env0 ''a@x.com'' (JString ''123456'') [alice])) = 200 \<and>
   resp (signup sign0 env0 ''a@x.com'' (JString ''654321'') [alice]) =
     reply 400 ''Invalid or expired OTP.'' \<and>
   resp (login sign0 env0 ''a@x.com'' (JNumber 123456) [alice]) =
     reply 400 ''Invalid or expired OTP.''"
proof -
  have f: "find_error env0 = None" and sv: "save_error env0 = None" by (simp_all add: env0_simps)
  have a: "\<exists>c x. otp alice = Some c \<and> c \<noteq> [] \<and> JString ''123456'' = JString c \<and>
             otpExpires alice = Some x \<and> now env0 \<le> x"
    by (simp add: alice_def env0_simps)
  have b: "\<not> (\<exists>c x. otp alice = Some c \<and> c \<noteq> [] \<and> JString ''654321'' = JString c \<and>
             otpExpires alice = Some x \<and> now env0 \<le> x)"
    by (simp add: alice_def)
  have c: "\<not> (\<exists>c x. otp alice = Some c \<and> c \<noteq> [] \<and> JNumber 123456 = JString c \<and>
             otpExpires alice = Some x \<and> now env0 \<le> x)"
    by simp
  from otp_validation_accepts_iff [OF f findOne_alice, of sign0 "JString ''123456''"]
    otp_validation_accepts_iff [OF f findOne_alice, of sign0 "JString ''654321''"]
    otp_validation_accepts_iff [OF f findOne_alice, of sign0 "JNumber 123456"]
    f sv a b c findOne_alice
  show ?thesis by blast
qed

text \<open>
  Claim C1 as stated requires the clock to be strictly before the expiry. At the expiry
  timestamp itself the stored code is accepted by both handlers.
\<close>

theorem accepted_at_expiry_counterexample:
  "otp alice = Some ''123456'' \<and> otpExpires alice = Some 1600000 \<and>
   now (env0\<lparr>now := 1600000\<rparr>) = 1600000 \<and> \<not> now (env0\<lparr>now := 1600000\<rparr>) < 1600000 \<and>
   status (resp (signup sign0 (env0\<lparr>now := 1600000\<rparr>) ''a@x.com'' (JString ''123456'') [alice])) = 200 \<and>
   status (resp (login sign0 (env0\<lparr>now := 1600000\<rparr>) ''a@x.com'' (JString ''123456'') [alice])) = 200"
  by (simp add: signup_def login_def env0_def findOne_def alice_def otp_rejected_def resp_simps)

lemma alice_simps:
  "uid alice = 1" "email alice = ''a@x.com''" "otp alice = Some ''123456''"
  "otpExpires alice = Some 1600000"
  by (simp_all add: alice_def)

text \<open>
  Claim C6. Whenever a completion handler does not answer 200 (in particular when it
  answers ``Invalid or expired OTP.'' for a missing challenge, a mismatched code or an
  expired one), the collection it leaves is the collection it found and no mail is sent;
  so a later submission of the stored code, at or before its expiry, is still accepted.
\<close>

theorem rejected_validation_leaves_challenge:
  "(status (resp (signup sign e em code users)) \<noteq> 200 \<longrightarrow>
      db (signup sign e em code users) = users \<and> sent (signup sign e em code users) = [] \<and>
      (\<forall>u c x e'. findOne em users = Some u \<and> otp u = Some c \<and> c \<noteq> [] \<and>
           otpExpires u = Some x \<and> now e' \<le> x \<and> find_error e' = None \<and>
           save_error e' = None \<longrightarrow>
           status (resp (signup sign e' em (JString c) (db (signup sign e em code users)))) = 200)) \<and>
   (status (resp (login sign e em code users)) \<noteq> 200 \<longrightarrow>
      db (login sign e em code users) = users \<and> sent (login sign e em code users) = [] \<and>
      (\<forall>u c x e'. findOne em users = Some u \<and> otp u = Some c \<and> c \<noteq> [] \<and>
           otpExpires u = Some x \<and> now e' \<le> x \<and> find_error e' = None \<and>
           save_error e' = None \<longrightarrow>
           status (resp (login sign e' em (JString c) (db (login sign e em code users)))) = 200))"
proof -
  have s: "db (signup sign e em code users) = users \<and> sent (signup sign e em code users) = []"
    if "status (resp (signup sign e em code users)) \<noteq> 200"
    using that by (auto simp add: signup_def resp_simps split: option.splits if_splits)
  have l: "db (login sign e em code users) = users \<and> sent (login sign e em code users) = []"
    if "status (resp (login sign e em code users)) \<noteq> 200"
    using that by (auto simp add: login_def resp_simps split: option.splits if_splits)
  have "status (resp (signup sign e' em (JString c) users)) = 200 \<and>
        status (resp (login sign e' em (JString c) users)) = 200"
    if "findOne em users = Some u" "otp u = Some c" "c \<noteq> []" "otpExpires u = Some x"
      "now e' \<le> x" "find_error e' = None" "save_error e' = None" for u c x e'
    using that
    by (simp add: signup_found login_found otp_rejected_def resp_simps)
  with s l show ?thesis by simp
qed

theorem rejected_validation_leaves_challenge_witness:
  "status (resp (signup sign0 env0 ''a@x.com'' (JString ''000000'') [alice])) \<noteq> 200 \<and>
   status (resp (login sign0 env0 ''a@x.com'' (JString ''000000'') [alice])) \<noteq> 200 \<and>
   db (signup sign0 env0 ''a@x.com'' (JString ''000000'') [alice]) = [alice] \<and>
   db (login sign0 env0 ''a@x.com'' (JString ''000000'') [alice]) = [alice] \<and>
   status (resp (signup sign0 env0 ''a@x.com'' (JString ''123456'')
     (db (signup sign0 env0 ''a@x.com'' (JString ''000000'') [alice])))) = 200 \<and>
   status (resp (login sign0 env0 ''a@x.com'' (JString ''123456'')
     (db (login sign0 env0 ''a@x.com'' (JString ''000000'') [alice])))) = 200"
proof -
  have a: "status (resp (signup sign0 env0 ''a@x.com'' (JString ''000000'') [alice])) \<noteq> 200"
    by (simp add: signup_found [OF _ findOne_alice] env0_simps otp_rejected_def alice_simps resp_simps)
  have b: "status (resp (login sign0 env0 ''a@x.com'' (JString ''000000'') [alice])) \<noteq> 200"
    by (simp add: login_found [OF _ findOne_alice] env0_simps otp_rejected_def alice_simps resp_simps)
  have c: "findOne ''a@x.com'' [alice] = Some alice \<and> otp alice = Some ''123456'' \<and> ''123456'' \<noteq> [] \<and>
           otpExpires alice = Some 1600000 \<and> now env0 \<le> 1600000 \<and> find_error env0 = None \<and>
           save_error env0 = None"
    by (simp add: findOne_alice alice_simps env0_simps)
  from rejected_validation_leaves_challenge
    [of sign0 env0 "''a@x.com''" "JString ''000000''" "[alice]"] a b c
  show ?thesis by metis
qed

section \<open>Challenge requests that are refused\<close>

text \<open>
  Claim C5. A signup-challenge request for an email that already has an account leaves the
  collection as it was and sends no mail, whatever else happens; when the lookup itself
  succeeds the answer is 400 ``User with this email already exists.'' (ACCOUNT_EXISTS), so
  the existing account's challenge fields are unchanged and no code is generated.
\<close>

theorem signup_challenge_for_existing_account:
  assumes "findOne em users = Some u"
  shows "db (request_signup_otp e nm dob em users) = users \<and>
         sent (request_signup_otp e nm dob em users) = [] \<and>
         findOne em (db (request_signup_otp e nm dob em users)) = Some u \<and>
         status (resp (request_signup_otp e nm dob em users)) \<noteq> 200 \<and>
         (find_error e = None \<longrightarrow>
            request_signup_otp e nm dob em users =
              respond users (reply 400 ''User with this email already exists.''))"
  using assms by (simp add: request_signup_otp_def resp_simps split: option.splits)

theorem signup_challenge_for_existing_account_witness:
  "findOne ''a@x.com'' [alice] = Some alice \<and> find_error env0 = None \<and>
   request_signup_otp env0 (Some ''Alice'') None ''a@x.com'' [alice] =
     respond [alice] (reply 400 ''User with this email already exists.'') \<and>
   findOne ''a@x.com'' (db (request_signup_otp env0 (Some ''Alice'') None ''a@x.com'' [alice])) =
     Some alice"
  using signup_challenge_for_existing_account [OF findOne_alice, of env0 "Some ''Alice''" None]
  by (simp add: findOne_alice env0_simps resp_simps)

text \<open>
  Claim C9. A login-challenge request for an email with no account leaves the collection
  as it was and sends no mail, whatever else happens; when the lookup itself succeeds the
  answer is 404 ``User not found. Please sign up first.'' (ACCOUNT_NOT_FOUND).
\<close>

theorem login_challenge_for_unknown_account:
  assumes "findOne em users = None"
  shows "db (request_otp e em users) = users \<and>
         sent (request_otp e em users) = [] \<and>
         logs (request_otp e em users) = [] \<and>
         status (resp (request_otp e em users)) \<noteq> 200 \<and>
         (find_error e = None \<longrightarrow>
            request_otp e em users =
              respond users (reply 404 ''User not found. Please sign up first.'') \<and>
            status (resp (request_otp e em users)) = 404)"
  using assms by (simp add: request_otp_def resp_simps split: option.splits)

theorem login_challenge_for_unknown_account_witness:
  "findOne ''b@x.com'' [alice] = None \<and> find_error env0 = None \<and>
   request_otp env0 ''b@x.com'' [alice] =
     respond [alice] (reply 404 ''User not found. Please sign up first.'') \<and>
   status (resp (request_otp env0 ''b@x.com'' [alice])) = 404 \<and>
   db (request_otp env0 ''b@x.com'' [alice]) = [alice] \<and>
   sent (request_otp env0 ''b@x.com'' [alice]) = []"
proof -
  have n: "findOne ''b@x.com'' [alice] = None" by (simp add: findOne_def alice_simps)
  from login_challenge_for_unknown_account [OF n, of env0] n show ?thesis
    by (simp add: env0_simps resp_simps)
qed

section \<open>Unique document ids\<close>

lemma fold_max_ge: "(a::nat) \<le> fold max xs a"
proof (induction xs arbitrary: a)
  case Nil
  show ?case by simp
next
  case (Cons x xs)
  have "a \<le> max x a" by simp
  also have "\<dots> \<le> fold max xs (max x a)" by (rule Cons.IH)
  finally show ?case by simp
qed

lemma fold_max_mem: "x \<in> set xs \<Longrightarrow> (x::nat) \<le> fold max xs a"
proof (induction xs arbitrary: a)
  case Nil
  then show ?case by simp
next
  case (Cons y ys)
  show ?case
  proof (cases "x = y")
    case True
    have "x \<le> max y a" using True by simp
    also have "\<dots> \<le> fold max ys (max y a)" by (rule fold_max_ge)
    finally show ?thesis by simp
  next
    case False
    with Cons.prems have "x \<in> set ys" by simp
    then show ?thesis using Cons.IH by simp
  qed
qed

lemma fresh_id_new: "u \<in> set users \<Longrightarrow> uid u < fresh_id users"
  unfolding fresh_id_def using fold_max_mem [of "uid u" "map uid users" 0] by simp

lemma fresh_id_notin: "fresh_id users \<notin> set (map uid users)"
proof
  assume "fresh_id users \<in> set (map uid users)"
  then obtain u where "u \<in> set users" "uid u = fresh_id users" by auto
  then show False using fresh_id_new [of u users] by simp
qed

lemma map_uid_save: "uid u' = uid u \<Longrightarrow> map uid (save u' users) = map uid users"
  unfolding save_def by (induction users) simp_all





lemma distinct_handle:
  assumes "distinct (map uid users)"
  shows "distinct (map uid (db (handle sign e r users)))"
proof (cases r)
  case (RequestSignupOtp nm dob em)
  then show ?thesis
    using assms fresh_id_notin [of users]
    by (auto simp add: request_signup_otp_def resp_simps new_user_def Let_def
        split: option.splits sum.splits if_splits prod.splits)
next
  case (Signup em code)
  then show ?thesis
    using assms
    by (auto simp add: signup_def resp_simps map_uid_save split: option.splits if_splits)
next
  case (RequestOtp em)
  then show ?thesis
    using assms
    by (auto simp add: request_otp_def resp_simps map_uid_save Let_def
        split: option.splits if_splits prod.splits)
next
  case (Login em code)
  then show ?thesis
    using assms
    by (auto simp add: login_def resp_simps map_uid_save split: option.splits if_splits)
qed

lemma distinct_run:
  "distinct (map uid users) \<Longrightarrow> distinct (map uid (run sign rs users))"
proof (induction rs arbitrary: users)
  case Nil
  then show ?case by simp
next
  case (Cons a rs)
  obtain e r where a: "a = (e, r)" by (cases a)
  show ?case unfolding a run.simps by (intro Cons.IH distinct_handle Cons.prems)
qed

section \<open>Replay of an accepted code\<close>











section \<open>What a failed login reveals\<close>

text \<open>
  Claim C3, as amended. A login completion for an email without an account and one for an
  existing account with a rejected code both answer 400 with no other field than the
  message, but the messages differ: ``Invalid credentials.'' against ``Invalid or expired
  OTP.''. What the response hides is only why the code of an existing account was
  rejected (no challenge, mismatch or expiry): that answer is the same in all three cases.
\<close>

theorem failed_login_responses:
  assumes "find_error e1 = None" and "findOne em1 users1 = None"
    and "find_error e2 = None" and "findOne em2 users2 = Some u"
    and "otp_rejected u code2 (now e2)"
  shows "resp (login sign e1 em1 code1 users1) = reply 400 ''Invalid credentials.'' \<and>
         resp (login sign e2 em2 code2 users2) = reply 400 ''Invalid or expired OTP.'' \<and>
         status (resp (login sign e1 em1 code1 users1)) = status (resp (login sign e2 em2 code2 users2)) \<and>
         message (resp (login sign e1 em1 code1 users1)) \<noteq> message (resp (login sign e2 em2 code2 users2))"
  using assms by (simp add: login_def resp_simps)

theorem failed_login_responses_witness:
  "find_error env0 = None \<and> findOne ''b@x.com'' [alice] = None \<and>
   findOne ''a@x.com'' [alice] = Some alice \<and> otp_rejected alice (JString ''000000'') (now env0) \<and>
   resp (login sign0 env0 ''b@x.com'' (JString ''000000'') [alice]) = reply 400 ''Invalid credentials.'' \<and>
   resp (login sign0 env0 ''a@x.com'' (JString ''000000'') [alice]) =
     reply 400 ''Invalid or expired OTP.''"
proof -
  have f: "find_error env0 = None" by (simp add: env0_simps)
  have n: "findOne ''b@x.com'' [alice] = None" by (simp add: findOne_def alice_simps)
  have r: "otp_rejected alice (JString ''000000'') (now env0)"
    by (simp add: otp_rejected_def alice_simps)
  from failed_login_responses [OF f n f findOne_alice r, of sign0 "JString ''000000''"] f n r findOne_alice
  show ?thesis by simp
qed

text \<open>
  Claim C3 as stated: the two failures are told apart by the response. The same wrong code
  sent for an unknown email and for the email of an existing account is refused with two
  different responses.
\<close>

theorem failed_login_reveals_account_counterexample:
  "findOne ''b@x.com'' [alice] = None \<and> findOne ''a@x.com'' [alice] = Some alice \<and>
   otp alice \<noteq> Some ''000000'' \<and>
   status (resp (login sign0 env0 ''b@x.com'' (JString ''000000'') [alice])) = 400 \<and>
   status (resp (login sign0 env0 ''a@x.com'' (JString ''000000'') [alice])) = 400 \<and>
   resp (login sign0 env0 ''b@x.com'' (JString ''000000'') [alice]) \<noteq>
   resp (login sign0 env0 ''a@x.com'' (JString ''000000'') [alice])"
  by (simp add: login_def env0_simps findOne_def alice_simps otp_rejected_def resp_simps)

section \<open>Delivery failures\<close>

lemma number_toString_nonempty: "number_toString n \<noteq> []"
  by (simp add: number_toString.simps [of n])

text \<open>
  Claim C8. \<open>sendEmail\<close> catches the error of the transport and only logs it. When a
  challenge request reaches the delivery step (lookup and write succeed, and for signup
  the new document passes validation) and the delivery fails, no mail is sent, one error
  line is logged, the answer is still 200 ``OTP sent successfully.'', and the account
  found under the email holds the generated code with its expiry, a code that validation
  accepts. In general the collection and the response of a challenge request do not depend
  on the outcome of the delivery.
\<close>

theorem failed_delivery_keeps_challenge:
  assumes "mail_error e = Some m" and "find_error e = None" and "save_error e = None"
  shows "(findOne em users = None \<and> nm = Some n \<and> n \<noteq> [] \<and> em \<noteq> [] \<longrightarrow>
            resp (request_signup_otp e nm dob em users) = reply_ok ''OTP sent successfully.'' None \<and>
            sent (request_signup_otp e nm dob em users) = [] \<and>
            logs (request_signup_otp e nm dob em users) =
              [LogError (''Error sending email to '' @ em @ '':'') m] \<and>
            (\<exists>u. findOne em (db (request_signup_otp e nm dob em users)) = Some u \<and>
               otp u = Some (number_toString (generate_otp (rnd e))) \<and>
               otpExpires u = Some (now e + 600000) \<and>
               \<not> otp_rejected u (JString (number_toString (generate_otp (rnd e)))) (now e))) \<and>
         (findOne em users \<noteq> None \<longrightarrow>
            resp (request_otp e em users) = reply_ok ''OTP sent successfully.'' None \<and>
            sent (request_otp e em users) = [] \<and>
            logs (request_otp e em users) = [LogError (''Error sending email to '' @ em @ '':'') m] \<and>
            (\<exists>u. findOne em (db (request_otp e em users)) = Some u \<and>
               otp u = Some (number_toString (generate_otp (rnd e))) \<and>
               otpExpires u = Some (now e + 600000) \<and>
               \<not> otp_rejected u (JString (number_toString (generate_otp (rnd e)))) (now e))) \<and>
         (\<forall>x. db (request_signup_otp (e\<lparr>mail_error := x\<rparr>) nm dob em users) =
                db (request_signup_otp e nm dob em users) \<and>
              resp (request_signup_otp (e\<lparr>mail_error := x\<rparr>) nm dob em users) =
                resp (request_signup_otp e nm dob em users) \<and>
              db (request_otp (e\<lparr>mail_error := x\<rparr>) em users) = db (request_otp e em users) \<and>
              resp (request_otp (e\<lparr>mail_error := x\<rparr>) em users) = resp (request_otp e em users))"
proof -
  let ?c = "number_toString (generate_otp (rnd e))"
  have a: "resp (request_signup_otp e nm dob em users) = reply_ok ''OTP sent successfully.'' None \<and>
            sent (request_signup_otp e nm dob em users) = [] \<and>
            logs (request_signup_otp e nm dob em users) =
              [LogError (''Error sending email to '' @ em @ '':'') m] \<and>
            (\<exists>u. findOne em (db (request_signup_otp e nm dob em users)) = Some u \<and>
               otp u = Some ?c \<and> otpExpires u = Some (now e + 600000) \<and>
               \<not> otp_rejected u (JString ?c) (now e))"
    if none: "findOne em users = None" and nm: "nm = Some n" "n \<noteq> []" "em \<noteq> []"
  proof -
    let ?u = "\<lparr>uid = fresh_id users, name = n, email = em, dateOfBirth = dob,
               otp = Some ?c, otpExpires = Some (now e + 600000)\<rparr>"
    have out: "request_signup_otp e nm dob em users =
        \<lparr>db = users @ [?u], sent = [],
         logs = [LogError (''Error sending email to '' @ em @ '':'') m],
         resp = reply_ok ''OTP sent successfully.'' None\<rparr>"
      using assms none nm by (simp add: request_signup_otp_def new_user_def sendEmail_def Let_def)
    have "findOne em (users @ [?u]) = Some ?u" using none by (rule findOne_append_new) simp
    moreover have "\<not> otp_rejected ?u (JString ?c) (now e)"
      by (simp add: otp_rejected_def number_toString_nonempty)
    ultimately show ?thesis unfolding out by simp
  qed
  have b: "resp (request_otp e em users) = reply_ok ''OTP sent successfully.'' None \<and>
            sent (request_otp e em users) = [] \<and>
            logs (request_otp e em users) = [LogError (''Error sending email to '' @ em @ '':'') m] \<and>
            (\<exists>u. findOne em (db (request_otp e em users)) = Some u \<and>
               otp u = Some ?c \<and> otpExpires u = Some (now e + 600000) \<and>
               \<not> otp_rejected u (JString ?c) (now e))"
    if "findOne em users \<noteq> None"
  proof -
    from that obtain u where u: "findOne em users = Some u" by blast
    let ?u = "u\<lparr>otp := Some ?c, otpExpires := Some (now e + 600000)\<rparr>"
    have out: "request_otp e em users =
        \<lparr>db = save ?u users, sent = [],
         logs = [LogError (''Error sending email to '' @ em @ '':'') m],
         resp = reply_ok ''OTP sent successfully.'' None\<rparr>"
      using assms u by (simp add: request_otp_def sendEmail_def Let_def)
    have "email u = em" using u by (rule findOne_email)
    then have "findOne em (save ?u users) = Some ?u" by (intro findOne_save [OF u]) simp_all
    moreover have "\<not> otp_rejected ?u (JString ?c) (now e)"
      by (simp add: otp_rejected_def number_toString_nonempty)
    ultimately show ?thesis unfolding out by simp
  qed
  have c: "db (request_signup_otp (e\<lparr>mail_error := x\<rparr>) nm dob em users) =
                db (request_signup_otp e nm dob em users) \<and>
              resp (request_signup_otp (e\<lparr>mail_error := x\<rparr>) nm dob em users) =
                resp (request_signup_otp e nm dob em users) \<and>
              db (request_otp (e\<lparr>mail_error := x\<rparr>) em users) = db (request_otp e em users) \<and>
              resp (request_otp (e\<lparr>mail_error := x\<rparr>) em users) = resp (request_otp e em users)" for x
    by (simp add: request_signup_otp_def request_otp_def sendEmail_def resp_simps Let_def
        split: option.splits sum.splits prod.splits)
  from a b c show ?thesis by blast
qed

theorem failed_delivery_keeps_challenge_witness:
  "mail_error (env0\<lparr>mail_error := Some ''ECONNREFUSED''\<rparr>) = Some ''ECONNREFUSED'' \<and>
   findOne ''a@x.com'' [] = None \<and> findOne ''a@x.com'' [alice] \<noteq> None \<and>
   resp (request_signup_otp (env0\<lparr>mail_error := Some ''ECONNREFUSED''\<rparr>) (Some ''Alice'') None
           ''a@x.com'' []) = reply_ok ''OTP sent successfully.'' None \<and>
   sent (request_signup_otp (env0\<lparr>mail_error := Some ''ECONNREFUSED''\<rparr>) (Some ''Alice'') None
           ''a@x.com'' []) = [] \<and>
   resp (request_otp (env0\<lparr>mail_error := Some ''ECONNREFUSED''\<rparr>) ''a@x.com'' [alice]) =
     reply_ok ''OTP sent successfully.'' None \<and>
   logs (request_otp (env0\<lparr>mail_error := Some ''ECONNREFUSED''\<rparr>) ''a@x.com'' [alice]) =
     [LogError ''Error sending email to a@x.com:'' ''ECONNREFUSED''] \<and>
   (\<exists>u. findOne ''a@x.com''
           (db (request_otp (env0\<lparr>mail_error := Some ''ECONNREFUSED''\<rparr>) ''a@x.com'' [alice])) = Some u \<and>
        otp u = Some ''550000'' \<and> otpExpires u = Some 1600000)"
proof -
  let ?e = "env0\<lparr>mail_error := Some ''ECONNREFUSED''\<rparr>"
  have h: "mail_error ?e = Some ''ECONNREFUSED''" "find_error ?e = None" "save_error ?e = None"
    by (simp_all add: env0_simps)
  have v: "number_toString (generate_otp (rnd ?e)) = ''550000''" "now ?e + 600000 = 1600000"
    by (simp_all add: env0_simps generate_otp_half number_toString_550000)
  have n: "findOne ''a@x.com'' [] = None" by (simp add: findOne_def)
  have s: "findOne ''a@x.com'' [alice] \<noteq> None" by (simp add: findOne_alice)
  have g: "findOne ''a@x.com'' [] = None \<and> Some ''Alice'' = Some ''Alice'' \<and> ''Alice'' \<noteq> [] \<and>
           ''a@x.com'' \<noteq> []"
    using n by simp
  from failed_delivery_keeps_challenge
    [OF h, of "''a@x.com''" "[]" "Some ''Alice''" "''Alice''" None] g
  have a: "resp (request_signup_otp ?e (Some ''Alice'') None ''a@x.com'' []) =
             reply_ok ''OTP sent successfully.'' None \<and>
           sent (request_signup_otp ?e (Some ''Alice'') None ''a@x.com'' []) = []"
    by blast
  from failed_delivery_keeps_challenge
    [OF h, of "''a@x.com''" "[alice]" "Some ''Alice''" "''Alice''" None] s
  have b: "resp (request_otp ?e ''a@x.com'' [alice]) = reply_ok ''OTP sent successfully.'' None \<and>
           logs (request_otp ?e ''a@x.com'' [alice]) =
             [LogError (''Error sending email to '' @ ''a@x.com'' @ '':'') ''ECONNREFUSED''] \<and>
           (\<exists>u. findOne ''a@x.com'' (db (request_otp ?e ''a@x.com'' [alice])) = Some u \<and>
              otp u = Some (number_toString (generate_otp (rnd ?e))) \<and>
              otpExpires u = Some (now ?e + 600000))"
    by blast
  from a b h(1) n s show ?thesis unfolding v by simp
qed

section \<open>Resending the signup challenge\<close>

text \<open>
  Claim C2 at a concrete run. A first signup-challenge request on the empty collection
  creates the account with code 550000. The same request sent again a minute later, as
  the ``Resend OTP'' button of the signup form does, is answered 400 ``User with this
  email already exists.'': the collection is unchanged, no mail is sent, and the first
  code still completes the signup afterwards. The login-challenge request, in contrast,
  does overwrite the pending code.
\<close>

theorem signup_resend_is_refused:
  "db (request_signup_otp env0 (Some ''Alice'') None ''a@x.com'' []) =
     [alice\<lparr>otp := Some ''550000''\<rparr>] \<and>
   request_signup_otp (env0\<lparr>now := 1060000, rnd := 0\<rparr>) (Some ''Alice'') None ''a@x.com''
       (db (request_signup_otp env0 (Some ''Alice'') None ''a@x.com'' [])) =
     respond [alice\<lparr>otp := Some ''550000''\<rparr>] (reply 400 ''User with this email already exists.'') \<and>
   status (resp (signup sign0 (env0\<lparr>now := 1100000\<rparr>) ''a@x.com'' (JString ''550000'')
     (db (request_signup_otp (env0\<lparr>now := 1060000, rnd := 0\<rparr>) (Some ''Alice'') None ''a@x.com''
       (db (request_signup_otp env0 (Some ''Alice'') None ''a@x.com'' [])))))) = 200 \<and>
   db (request_otp (env0\<lparr>now := 1060000\<rparr>) ''a@x.com'' [alice]) =
     [alice\<lparr>otp := Some ''550000'', otpExpires := Some 1660000\<rparr>]"
proof -
  have first: "db (request_signup_otp env0 (Some ''Alice'') None ''a@x.com'' []) =
      [alice\<lparr>otp := Some ''550000''\<rparr>]"
    by (simp add: request_signup_otp_env0 alice_def)
  have f: "findOne ''a@x.com'' [alice\<lparr>otp := Some ''550000''\<rparr>] = Some (alice\<lparr>otp := Some ''550000''\<rparr>)"
    by (simp add: findOne_def alice_simps)
  have again: "request_signup_otp (env0\<lparr>now := 1060000, rnd := 0\<rparr>) (Some ''Alice'') None ''a@x.com''
       [alice\<lparr>otp := Some ''550000''\<rparr>] =
     respond [alice\<lparr>otp := Some ''550000''\<rparr>] (reply 400 ''User with this email already exists.'')"
    by (simp add: request_signup_otp_def f env0_simps)
  have old: "status (resp (signup sign0 (env0\<lparr>now := 1100000\<rparr>) ''a@x.com'' (JString ''550000'')
      [alice\<lparr>otp := Some ''550000''\<rparr>])) = 200"
    by (simp add: signup_def f env0_simps otp_rejected_def alice_simps resp_simps)
  have login: "db (request_otp (env0\<lparr>now := 1060000\<rparr>) ''a@x.com'' [alice]) =
     [alice\<lparr>otp := Some ''550000'', otpExpires := Some 1660000\<rparr>]"
    by (simp add: request_otp_def findOne_alice env0_simps save_def sendEmail_def Let_def
        generate_otp_half number_toString_550000)
  show ?thesis unfolding first again using old login first by (simp add: respond_def)
qed

section \<open>The session verification guard\<close>

lemma split_space_nonempty: "split_space cs \<noteq> []"
  by (induction cs) (auto split: list.splits)

lemma split_space_no_space: "CHR '' '' \<notin> set w \<Longrightarrow> split_space w = [w]"
  by (induction w) auto

lemma split_space_word:
  "CHR '' '' \<notin> set w \<Longrightarrow> split_space (w @ CHR '' '' # cs) = w # split_space cs"
  by (induction w) auto

lemma second_segment:
  assumes "CHR '' '' \<notin> set w" "CHR '' '' \<notin> set t"
  shows "index1 (split_space (w @ '' '' @ t)) = Some t"
  using assms by (simp add: split_space_word split_space_no_space index1_def)

lemma second_of_many:
  assumes "CHR '' '' \<notin> set w" "CHR '' '' \<notin> set t"
  shows "index1 (split_space (w @ '' '' @ t @ '' '' @ rest)) = Some t"
  using assms by (simp add: split_space_word index1_def)

text \<open>
  Claim C10. The guard takes the second space-separated segment of the Authorization
  header as the token and never looks at the first segment or at any later one. Let the
  header be a word \<open>w\<close>, a space and a segment \<open>t\<close> (neither containing a space),
  alone or followed by a space and anything else. If \<open>t\<close> is empty the answer is 401
  ``No token, authorization denied.''; otherwise a \<open>t\<close> that \<open>jwt.verify\<close> accepts passes
  and the protected handler runs with the decoded user, whatever \<open>w\<close> and the rest are,
  and a \<open>t\<close> that \<open>jwt.verify\<close> refuses gives 401 ``Token is not valid.''. Without a
  header, or with a header of a single segment, the answer is 401 ``No token,
  authorization denied.'' whatever the protected handler would have done.
\<close>

theorem guard_takes_second_segment:
  "(CHR '' '' \<notin> set w \<and> CHR '' '' \<notin> set t \<longrightarrow>
      (\<forall>h. h = w @ '' '' @ t \<or> (\<exists>rest. h = w @ '' '' @ t @ '' '' @ rest) \<longrightarrow>
         (t = [] \<longrightarrow>
            authMiddleware verify (Some h) = Inl (reply 401 ''No token, authorization denied.'') \<and>
            protected verify handler (Some h) = reply 401 ''No token, authorization denied.'') \<and>
         (t \<noteq> [] \<longrightarrow>
            (\<forall>du. verify t = Inr du \<longrightarrow>
               authMiddleware verify (Some h) = Inr du \<and>
               protected verify handler (Some h) = handler du) \<and>
            (\<forall>m. verify t = Inl m \<longrightarrow>
               protected verify handler (Some h) =
                 \<lparr>status = 401, success = None, message = ''Token is not valid.'', token = None,
                  error = Some m\<rparr>)))) \<and>
   (authorization = None \<or> (\<exists>s. CHR '' '' \<notin> set s \<and> authorization = Some s) \<longrightarrow>
      authMiddleware verify authorization = Inl (reply 401 ''No token, authorization denied.'') \<and>
      protected verify handler authorization = reply 401 ''No token, authorization denied.'')"
proof -
  have tok: "index1 (split_space h) = Some t"
    if "CHR '' '' \<notin> set w" "CHR '' '' \<notin> set t"
      "h = w @ '' '' @ t \<or> (\<exists>rest. h = w @ '' '' @ t @ '' '' @ rest)" for h
    using that second_segment [of w t] second_of_many [of w t] by auto
  have a: "authMiddleware verify (Some h) = Inl (reply 401 ''No token, authorization denied.'') \<and>
           protected verify handler (Some h) = reply 401 ''No token, authorization denied.''"
    if "index1 (split_space h) = Some t" "t = []" for h
    using that by (simp add: authMiddleware_def protected_def)
  have b: "authMiddleware verify (Some h) = Inr du \<and> protected verify handler (Some h) = handler du"
    if "index1 (split_space h) = Some t" "t \<noteq> []" "verify t = Inr du" for h du
    using that by (simp add: authMiddleware_def protected_def)
  have c: "protected verify handler (Some h) =
           \<lparr>status = 401, success = None, message = ''Token is not valid.'', token = None,
            error = Some m\<rparr>"
    if "index1 (split_space h) = Some t" "t \<noteq> []" "verify t = Inl m" for h m
    using that by (simp add: authMiddleware_def protected_def)
  have d: "authMiddleware verify None = Inl (reply 401 ''No token, authorization denied.'')"
    by (simp add: authMiddleware_def)
  have e: "authMiddleware verify (Some s) = Inl (reply 401 ''No token, authorization denied.'')"
    if "CHR '' '' \<notin> set s" for s
    using that by (simp add: authMiddleware_def split_space_no_space index1_def)
  have f: "authMiddleware verify authorization = Inl (reply 401 ''No token, authorization denied.'') \<and>
           protected verify handler authorization = reply 401 ''No token, authorization denied.''"
    if "authorization = None \<or> (\<exists>s. CHR '' '' \<notin> set s \<and> authorization = Some s)"
    using that d e by (auto simp add: protected_def)
  have g: "(t = [] \<longrightarrow>
            authMiddleware verify (Some h) = Inl (reply 401 ''No token, authorization denied.'') \<and>
            protected verify handler (Some h) = reply 401 ''No token, authorization denied.'') \<and>
         (t \<noteq> [] \<longrightarrow>
            (\<forall>du. verify t = Inr du \<longrightarrow>
               authMiddleware verify (Some h) = Inr du \<and>
               protected verify handler (Some h) = handler du) \<and>
            (\<forall>m. verify t = Inl m \<longrightarrow>
               protected verify handler (Some h) =
                 \<lparr>status = 401, success = None, message = ''Token is not valid.'', token = None,
                  error = Some m\<rparr>))"
    if "CHR '' '' \<notin> set w" "CHR '' '' \<notin> set t"
      "h = w @ '' '' @ t \<or> (\<exists>rest. h = w @ '' '' @ t @ '' '' @ rest)" for h
    using a [OF tok [OF that]] b [OF tok [OF that]] c [OF tok [OF that]] by blast
  from g f show ?thesis by blast
qed

theorem guard_takes_second_segment_witness:
  "CHR '' '' \<notin> set ''Basic'' \<and> CHR '' '' \<notin> set ''jwt-1'' \<and> ''jwt-1'' \<noteq> [] \<and>
   verify0 ''jwt-1'' = Inr (Some 1) \<and> verify0 ''junk'' = Inl ''invalid signature'' \<and>
   authMiddleware verify0 (Some ''Basic jwt-1'') = Inr (Some 1) \<and>
   protected verify0 (\<lambda>u. reply 200 ''ok'') (Some ''Basic jwt-1'') = reply 200 ''ok'' \<and>
   authMiddleware verify0 (Some ''Bearer jwt-1 junk'') = Inr (Some 1) \<and>
   protected verify0 (\<lambda>u. reply 200 ''ok'') (Some ''Bearer junk jwt-1'') =
     \<lparr>status = 401, success = None, message = ''Token is not valid.'', token = None,
      error = Some ''invalid signature''\<rparr> \<and>
   protected verify0 (\<lambda>u. reply 200 ''ok'') (Some ''Bearer  jwt-1'') =
     reply 401 ''No token, authorization denied.'' \<and>
   protected verify0 (\<lambda>u. reply 200 ''ok'') None = reply 401 ''No token, authorization denied.'' \<and>
   protected verify0 (\<lambda>u. reply 200 ''ok'') (Some ''jwt-1'') =
     reply 401 ''No token, authorization denied.''"
proof -
  let ?ok = "\<lambda>u :: nat option. reply 200 ''ok''"
  have v: "verify0 ''jwt-1'' = Inr (Some 1)" "verify0 ''junk'' = Inl ''invalid signature''"
    by (simp_all add: verify0_def)
  have p: "CHR '' '' \<notin> set ''Basic'' \<and> CHR '' '' \<notin> set ''jwt-1''"
    "CHR '' '' \<notin> set ''Bearer'' \<and> CHR '' '' \<notin> set ''jwt-1''"
    "CHR '' '' \<notin> set ''Bearer'' \<and> CHR '' '' \<notin> set ''junk''"
    "CHR '' '' \<notin> set ''Bearer'' \<and> CHR '' '' \<notin> set ([] :: string)"
    by simp_all
  have h1: "''Basic jwt-1'' = ''Basic'' @ '' '' @ ''jwt-1'' \<or>
            (\<exists>rest. ''Basic jwt-1'' = ''Basic'' @ '' '' @ ''jwt-1'' @ '' '' @ rest)" by simp
  have h2: "''Bearer jwt-1 junk'' = ''Bearer'' @ '' '' @ ''jwt-1'' \<or>
            (\<exists>rest. ''Bearer jwt-1 junk'' = ''Bearer'' @ '' '' @ ''jwt-1'' @ '' '' @ rest)" by simp
  have h3: "''Bearer junk jwt-1'' = ''Bearer'' @ '' '' @ ''junk'' \<or>
            (\<exists>rest. ''Bearer junk jwt-1'' = ''Bearer'' @ '' '' @ ''junk'' @ '' '' @ rest)" by simp
  have h4: "''Bearer  jwt-1'' = ''Bearer'' @ '' '' @ [] \<or>
            (\<exists>rest. ''Bearer  jwt-1'' = ''Bearer'' @ '' '' @ [] @ '' '' @ rest)" by simp
  have n: "(None :: string option) = None \<or>
           (\<exists>s. CHR '' '' \<notin> set s \<and> (None :: string option) = Some s)" by simp
  have s: "Some ''jwt-1'' = None \<or> (\<exists>s. CHR '' '' \<notin> set s \<and> Some ''jwt-1'' = Some s)" by simp
  have ne: "''jwt-1'' \<noteq> []" "''junk'' \<noteq> []" by simp_all
  from guard_takes_second_segment [of "''Basic''" "''jwt-1''" verify0 ?ok None] p(1) h1 v(1) n ne(1)
  have a: "authMiddleware verify0 (Some ''Basic jwt-1'') = Inr (Some 1) \<and>
           protected verify0 ?ok (Some ''Basic jwt-1'') = reply 200 ''ok'' \<and>
           protected verify0 ?ok None = reply 401 ''No token, authorization denied.''"
    by blast
  from guard_takes_second_segment [of "''Bearer''" "''jwt-1''" verify0 ?ok "Some ''jwt-1''"]
    p(2) h2 v(1) s ne(1)
  have b: "authMiddleware verify0 (Some ''Bearer jwt-1 junk'') = Inr (Some 1) \<and>
           protected verify0 ?ok (Some ''jwt-1'') = reply 401 ''No token, authorization denied.''"
    by blast
  from guard_takes_second_segment [of "''Bearer''" "''junk''" verify0 ?ok None] p(3) h3 v(2) ne(2)
  have c: "protected verify0 ?ok (Some ''Bearer junk jwt-1'') =
     \<lparr>status = 401, success = None, message = ''Token is not valid.'', token = None,
      error = Some ''invalid signature''\<rparr>"
    by blast
  from guard_takes_second_segment [of "''Bearer''" "[]" verify0 ?ok None] p(4) h4
  have d: "protected verify0 ?ok (Some ''Bearer  jwt-1'') = reply 401 ''No token, authorization denied.''"
    by blast
  from a b c d v show ?thesis by simp
qed

end
